theory Spec2Isabelle
  imports Complex_Main "HOL-Library.Sublist"
begin

section \<open>Simple harmonic motion simulator: data model\<close>

text \<open>
  The simulator (script.js) keeps its state in module-level objects: \<open>simulationMode\<close>,
  \<open>params\<close>, \<open>simulation\<close>, \<open>validationState\<close>, \<open>dragState\<close> and \<open>graphData\<close>.
  Each object is a record here and every function that reads or writes them takes the
  state and returns the new one. JavaScript numbers are modelled by the reals: the
  arithmetic below is the exact arithmetic that the floating-point code approximates.
  Where the drag handlers divide by the amplitude, which the sliders can set to zero,
  the quotient is a \<open>jsnum\<close>, which has NaN and the two infinities as values.
\<close>

datatype mode = Spring | Pendulum

text \<open>A JavaScript number that need not be finite.\<close>

datatype jsnum = Num real | PosInfinity | NegInfinity | NaN

text \<open>The keys of the objects \<open>params\<close> and \<open>validationState\<close>.\<close>

datatype field = Mass | SpringConstant | Amplitude | PendulumLength | PendulumAngle
  | Gravity | Phase

record params_t =
  mass :: real
  springConstant :: real
  amplitude :: real
  pendulumLength :: real
  pendulumAngle :: real
  gravity :: real
  phase :: real

record simulation_t =
  time :: real
  isRunning :: bool
  animationId :: "nat option"
  lastTimestamp :: real
  timeScale :: real

text \<open>A chart point \<open>{ x: ..., y: ... }\<close>; \<open>px\<close> is its time coordinate.\<close>

record point =
  px :: real
  py :: real

record graphData_t =
  position :: "point list"
  velocity :: "point list"
  acceleration :: "point list"
  maxPoints :: nat
  timeWindow :: real

record dragState_t =
  isDragging :: bool
  wasRunning :: bool
  massPosition :: "real \<times> real"
  massRadius :: real

text \<open>
  The browser side that the claims depend on: the size and the page offset of the canvas,
  the queue of frame requests made by \<open>requestAnimationFrame\<close> and not yet delivered or
  cancelled, the next request handle (handles are positive), the console, whether the
  start button is disabled, and the four numbers last handed to \<open>updateCurrentValues\<close>
  for display (position, velocity, acceleration, time).
  Painting on the canvas and the Chart.js objects are not part of the state: they are
  written by the drawing functions and read by nothing modelled here, except for
  \<open>dragState.massPosition\<close> and \<open>dragState.massRadius\<close>, which the drawing functions set.
\<close>

record state =
  simulationMode :: mode
  params :: params_t
  simulation :: simulation_t
  validationState :: "field \<Rightarrow> bool"
  dragState :: dragState_t
  graphData :: graphData_t
  canvasWidth :: real
  canvasHeight :: real
  rectLeft :: real
  rectTop :: real
  frameRequests :: "nat list"
  nextHandle :: nat
  console :: "string list"
  startBtnDisabled :: bool
  currentValues :: "real \<times> jsnum \<times> jsnum \<times> real"

definition PIXELS_PER_METER :: real where
  "PIXELS_PER_METER = 320"

section \<open>Physical calculations\<close>

definition calculateOmega :: "state \<Rightarrow> real" where
  "calculateOmega s =
     (if simulationMode s = Spring
      then sqrt (springConstant (params s) / mass (params s))
      else sqrt (gravity (params s) / pendulumLength (params s)))"

definition calculatePeriod :: "state \<Rightarrow> real" where
  "calculatePeriod s = (2 * pi) / calculateOmega s"

definition calculateFrequency :: "state \<Rightarrow> real" where
  "calculateFrequency s = 1 / calculatePeriod s"

definition getAmplitude :: "state \<Rightarrow> real" where
  "getAmplitude s =
     (if simulationMode s = Spring
      then amplitude (params s)
      else pendulumAngle (params s) * pi / 180)"

definition calculatePosition :: "state \<Rightarrow> real \<Rightarrow> real" where
  "calculatePosition s t =
     (let omega = calculateOmega s; A = getAmplitude s
      in A * cos (omega * t + phase (params s)))"

definition calculateVelocity :: "state \<Rightarrow> real \<Rightarrow> real" where
  "calculateVelocity s t =
     (let omega = calculateOmega s; A = getAmplitude s
      in - A * omega * sin (omega * t + phase (params s)))"

definition calculateAcceleration :: "state \<Rightarrow> real \<Rightarrow> real" where
  "calculateAcceleration s t =
     (let omega = calculateOmega s; A = getAmplitude s
      in - A * omega * omega * cos (omega * t + phase (params s)))"

text \<open>
  The precondition that the evaluator leaves to the parameter inputs: the four
  quantities under the square roots are positive.
\<close>

definition positiveParams :: "state \<Rightarrow> bool" where
  "positiveParams s \<longleftrightarrow>
     0 < mass (params s) \<and> 0 < springConstant (params s) \<and>
     0 < gravity (params s) \<and> 0 < pendulumLength (params s)"

section \<open>Browser interface\<close>

text \<open>
  \<open>requestAnimationFrame\<close> queues a request and returns its handle;
  \<open>cancelAnimationFrame\<close> removes the request with the given handle.
\<close>

definition requestAnimationFrame :: "state \<Rightarrow> nat \<times> state" where
  "requestAnimationFrame s =
     (nextHandle s,
      s\<lparr> frameRequests := frameRequests s @ [nextHandle s],
         nextHandle := Suc (nextHandle s) \<rparr>)"

definition cancelAnimationFrame :: "nat \<Rightarrow> state \<Rightarrow> state" where
  "cancelAnimationFrame h s = s\<lparr> frameRequests := removeAll h (frameRequests s) \<rparr>"

text \<open>\<open>Array.prototype.shift\<close>: removes the first element; an empty array stays empty.\<close>

definition shift :: "'a list \<Rightarrow> 'a list" where
  "shift xs = (case xs of [] \<Rightarrow> [] | v # vs \<Rightarrow> vs)"

text \<open>
  The arithmetic of the drag handlers on numbers that need not be finite. \<open>jsDivide a b\<close>
  is \<open>a / b\<close> for finite \<open>a\<close> and \<open>b\<close>: \<open>0 / 0\<close> is NaN and any other quotient by zero is
  infinite (the reals have one zero, taken as \<open>+0\<close>). \<open>Math.min\<close> and \<open>Math.max\<close> with a
  finite first argument, \<open>Math.acos\<close>, and \<open>x - b\<close>, \<open>x / b\<close>, \<open>x + b\<close> and \<open>x < 0\<close> for a
  finite \<open>b\<close> follow; NaN propagates and compares false.
\<close>

definition jsDivide :: "real \<Rightarrow> real \<Rightarrow> jsnum" where
  "jsDivide a b =
     (if b \<noteq> 0 then Num (a / b)
      else if a = 0 then NaN
      else if 0 < a then PosInfinity
      else NegInfinity)"

fun Math_min :: "real \<Rightarrow> jsnum \<Rightarrow> jsnum" where
  "Math_min c (Num r) = Num (min c r)"
| "Math_min c PosInfinity = Num c"
| "Math_min c NegInfinity = NegInfinity"
| "Math_min c NaN = NaN"

fun Math_max :: "real \<Rightarrow> jsnum \<Rightarrow> jsnum" where
  "Math_max c (Num r) = Num (max c r)"
| "Math_max c PosInfinity = PosInfinity"
| "Math_max c NegInfinity = Num c"
| "Math_max c NaN = NaN"

fun Math_acos :: "jsnum \<Rightarrow> jsnum" where
  "Math_acos (Num r) = (if - 1 \<le> r \<and> r \<le> 1 then Num (arccos r) else NaN)"
| "Math_acos PosInfinity = NaN"
| "Math_acos NegInfinity = NaN"
| "Math_acos NaN = NaN"

fun jsMinus :: "jsnum \<Rightarrow> real \<Rightarrow> jsnum" where
  "jsMinus (Num a) b = Num (a - b)"
| "jsMinus PosInfinity b = PosInfinity"
| "jsMinus NegInfinity b = NegInfinity"
| "jsMinus NaN b = NaN"

fun jsPlus :: "jsnum \<Rightarrow> real \<Rightarrow> jsnum" where
  "jsPlus (Num a) b = Num (a + b)"
| "jsPlus PosInfinity b = PosInfinity"
| "jsPlus NegInfinity b = NegInfinity"
| "jsPlus NaN b = NaN"

fun jsQuotient :: "jsnum \<Rightarrow> real \<Rightarrow> jsnum" where
  "jsQuotient (Num a) b = jsDivide a b"
| "jsQuotient PosInfinity b = (if b < 0 then NegInfinity else PosInfinity)"
| "jsQuotient NegInfinity b = (if b < 0 then PosInfinity else NegInfinity)"
| "jsQuotient NaN b = NaN"

fun jsNegative :: "jsnum \<Rightarrow> bool" where
  "jsNegative (Num a) \<longleftrightarrow> a < 0"
| "jsNegative PosInfinity \<longleftrightarrow> False"
| "jsNegative NegInfinity \<longleftrightarrow> True"
| "jsNegative NaN \<longleftrightarrow> False"

text \<open>
  A kinematic function of the time at a number that need not be finite: at NaN and at
  the infinities the sine or cosine in it is NaN, and so is the result.
\<close>

fun atTime :: "(real \<Rightarrow> real) \<Rightarrow> jsnum \<Rightarrow> jsnum" where
  "atTime f (Num t) = Num (f t)"
| "atTime f PosInfinity = NaN"
| "atTime f NegInfinity = NaN"
| "atTime f NaN = NaN"

text \<open>\<open>Math.atan2 (b, a)\<close> over the reals.\<close>

definition atan2 :: "real \<Rightarrow> real \<Rightarrow> real" where
  "atan2 b a =
     (if 0 < a then arctan (b / a)
      else if a < 0 \<and> 0 \<le> b then arctan (b / a) + pi
      else if a < 0 then arctan (b / a) - pi
      else if 0 < b then pi / 2
      else if b < 0 then - (pi / 2)
      else 0)"

section \<open>Input validation\<close>

definition Object_values :: "(field \<Rightarrow> bool) \<Rightarrow> bool list" where
  "Object_values vs =
     map vs [Mass, SpringConstant, Amplitude, PendulumLength, PendulumAngle, Gravity, Phase]"

text \<open>\<open>Object.values(validationState).some(isValid => !isValid)\<close>\<close>

definition hasErrors :: "state \<Rightarrow> bool" where
  "hasErrors s = list_ex (\<lambda>isValid. \<not> isValid) (Object_values (validationState s))"

definition updateStartButtonState :: "state \<Rightarrow> state" where
  "updateStartButtonState s = s\<lparr> startBtnDisabled := hasErrors s \<rparr>"

text \<open>
  \<open>showError (inputId, errorId, show, validationKey)\<close>: every call passes a key; the
  class changes of the two elements are outside the state.
\<close>

definition showError :: "bool \<Rightarrow> field \<Rightarrow> state \<Rightarrow> state" where
  "showError shw validationKey s =
     updateStartButtonState
       (s\<lparr> validationState := (validationState s)(validationKey := \<not> shw) \<rparr>)"

text \<open>\<open>params[paramName] = numValue\<close>\<close>

fun setParam :: "field \<Rightarrow> real \<Rightarrow> params_t \<Rightarrow> params_t" where
  "setParam Mass v p = p\<lparr> mass := v \<rparr>"
| "setParam SpringConstant v p = p\<lparr> springConstant := v \<rparr>"
| "setParam Amplitude v p = p\<lparr> amplitude := v \<rparr>"
| "setParam PendulumLength v p = p\<lparr> pendulumLength := v \<rparr>"
| "setParam PendulumAngle v p = p\<lparr> pendulumAngle := v \<rparr>"
| "setParam Gravity v p = p\<lparr> gravity := v \<rparr>"
| "setParam Phase v p = p\<lparr> phase := v \<rparr>"

text \<open>
  \<open>validateAndUpdate\<close>: the value is what \<open>parseFloat\<close> made of the text, \<open>None\<close> for NaN.
  The result is the returned flag and the new state.
\<close>

definition validateAndUpdate ::
  "real option \<Rightarrow> real \<Rightarrow> real \<Rightarrow> field \<Rightarrow> field \<Rightarrow> state \<Rightarrow> bool \<times> state" where
  "validateAndUpdate numValue lo hi paramName validationKey s =
     (case numValue of
        None \<Rightarrow> (False, showError True validationKey s)
      | Some v \<Rightarrow>
          if v < lo \<or> v > hi then (False, showError True validationKey s)
          else (let s1 = showError False validationKey s
                in (True, s1\<lparr> params := setParam paramName v (params s1) \<rparr>)))"

text \<open>The listeners of the sliders and of the text inputs, as \<open>setupEventListeners\<close> adds them.\<close>

definition sliderInput :: "field \<Rightarrow> real \<Rightarrow> state \<Rightarrow> state" where
  "sliderInput k v s = showError False k (s\<lparr> params := setParam k v (params s) \<rparr>)"

fun inputRange :: "field \<Rightarrow> real \<times> real" where
  "inputRange Mass = (0.5, 5)"
| "inputRange SpringConstant = (10, 100)"
| "inputRange Amplitude = (0.01, 0.50)"
| "inputRange PendulumLength = (0.5, 3)"
| "inputRange PendulumAngle = (1, 15)"
| "inputRange Gravity = (1, 20)"
| "inputRange Phase = (0, 6.28)"

definition manualInput :: "field \<Rightarrow> real option \<Rightarrow> state \<Rightarrow> state" where
  "manualInput k numValue s =
     (if k = Phase then
        (let isValid = (case numValue of None \<Rightarrow> False | Some v \<Rightarrow> 0 \<le> v \<and> v \<le> 6.28);
             s1 = showError (\<not> isValid) Phase s
         in if isValid then s1\<lparr> params := (params s1)\<lparr> phase := the numValue \<rparr> \<rparr> else s1)
      else snd (validateAndUpdate numValue (fst (inputRange k)) (snd (inputRange k)) k k s))"

section \<open>Drawing\<close>

text \<open>
  Of \<open>drawSpring\<close> and \<open>drawPendulum\<close> the state keeps what they store for hit testing:
  the centre and the radius of the painted mass.
\<close>

definition drawSpring :: "real \<Rightarrow> state \<Rightarrow> state" where
  "drawSpring displacement s =
     (let anchorX = canvasWidth s / 2;
          equilibriumY = canvasHeight s / 2;
          massY = equilibriumY + displacement
      in s\<lparr> dragState := (dragState s)\<lparr> massPosition := (anchorX, massY), massRadius := 25 \<rparr> \<rparr>)"

definition drawPendulum :: "real \<Rightarrow> state \<Rightarrow> state" where
  "drawPendulum angle s =
     (let pivotX = canvasWidth s / 2;
          pivotY = 50;
          ropeLength = 80 + (pendulumLength (params s) - 0.5) * 64;
          masaX = pivotX + ropeLength * sin angle;
          masaY = pivotY + ropeLength * cos angle
      in s\<lparr> dragState := (dragState s)\<lparr> massPosition := (masaX, masaY), massRadius := 20 \<rparr> \<rparr>)"

definition updateCurrentValues :: "real \<Rightarrow> jsnum \<Rightarrow> jsnum \<Rightarrow> real \<Rightarrow> state \<Rightarrow> state" where
  "updateCurrentValues pos vel acc t s =
     (if simulationMode s = Spring then s\<lparr> currentValues := (pos, vel, acc, t) \<rparr>
      else s\<lparr> currentValues := (pos * 180 / pi, vel, acc, t) \<rparr>)"

section \<open>Sample buffer\<close>

text \<open>
  The eviction loop of \<open>addDataPoint\<close>:
  \<open>while (position.length > 0 && position[0].x < minTime) { shift all three }\<close>.
\<close>

function addDataPoint_evict :: "real \<Rightarrow> graphData_t \<Rightarrow> graphData_t" where
  "addDataPoint_evict minTime g =
     (if length (position g) > 0 \<and> px (hd (position g)) < minTime
      then addDataPoint_evict minTime
             (g\<lparr> position := shift (position g),
                velocity := shift (velocity g),
                acceleration := shift (acceleration g) \<rparr>)
      else g)"
  by pat_completeness auto
termination
  by (relation "measure (\<lambda>(minTime, g). length (position g))")
     (auto simp: shift_def split: list.splits)

declare addDataPoint_evict.simps [simp del]

definition addDataPoint :: "real \<Rightarrow> real \<Rightarrow> real \<Rightarrow> real \<Rightarrow> state \<Rightarrow> state" where
  "addDataPoint t pos vel acc s =
     (let positionForGraph = (if simulationMode s = Pendulum then pos * 180 / pi else pos);
          g = graphData s;
          g1 = g\<lparr> position := position g @ [\<lparr> px = t, py = positionForGraph \<rparr>],
                  velocity := velocity g @ [\<lparr> px = t, py = vel \<rparr>],
                  acceleration := acceleration g @ [\<lparr> px = t, py = acc \<rparr>] \<rparr>;
          minTime = t - timeWindow g1 - 0.5
      in s\<lparr> graphData := addDataPoint_evict minTime g1 \<rparr>)"

definition clearSeries :: "state \<Rightarrow> state" where
  "clearSeries s =
     s\<lparr> graphData := (graphData s)\<lparr> position := [], velocity := [], acceleration := [] \<rparr> \<rparr>"

section \<open>Simulation control\<close>

definition startSimulation :: "state \<Rightarrow> state" where
  "startSimulation s =
     (if hasErrors s
      then s\<lparr> console := console s @
             [''No se puede iniciar la simulacion: hay errores en los parametros''] \<rparr>
      else if \<not> isRunning (simulation s)
      then (let s1 = s\<lparr> simulation := (simulation s)\<lparr> isRunning := True, lastTimestamp := 0 \<rparr> \<rparr>;
                (h, s2) = requestAnimationFrame s1
            in s2\<lparr> simulation := (simulation s2)\<lparr> animationId := Some h \<rparr> \<rparr>)
      else s)"

definition pauseSimulation :: "state \<Rightarrow> state" where
  "pauseSimulation s =
     (let s1 = s\<lparr> simulation := (simulation s)\<lparr> isRunning := False \<rparr> \<rparr>
      in case animationId (simulation s1) of
           None \<Rightarrow> s1
         | Some h \<Rightarrow>
             if h \<noteq> 0
             then (let s2 = cancelAnimationFrame h s1
                   in s2\<lparr> simulation := (simulation s2)\<lparr> animationId := None \<rparr> \<rparr>)
             else s1)"

definition resetSimulation :: "state \<Rightarrow> state" where
  "resetSimulation s =
     (let s1 = pauseSimulation s;
          s2 = s1\<lparr> simulation := (simulation s1)\<lparr> time := 0, lastTimestamp := 0 \<rparr> \<rparr>;
          s3 = clearSeries s2;
          s4 = (if simulationMode s3 = Spring then drawSpring 0 s3 else drawPendulum 0 s3)
      in updateCurrentValues 0 (Num 0) (Num 0) 0 s4)"

definition animate :: "real \<Rightarrow> state \<Rightarrow> state" where
  "animate timestamp s =
     (if \<not> isRunning (simulation s) then s
      else
        (let s1 = (if lastTimestamp (simulation s) = 0
                   then s\<lparr> simulation := (simulation s)\<lparr> lastTimestamp := timestamp \<rparr> \<rparr>
                   else s);
             deltaTime = (timestamp - lastTimestamp (simulation s1)) / 1000;
             s2 = s1\<lparr> simulation := (simulation s1)\<lparr> lastTimestamp := timestamp \<rparr> \<rparr>;
             clampedDelta = min deltaTime 0.1;
             s3 = s2\<lparr> simulation := (simulation s2)
                    \<lparr> time := time (simulation s2) + clampedDelta * timeScale (simulation s2) \<rparr> \<rparr>;
             pos = calculatePosition s3 (time (simulation s3));
             vel = calculateVelocity s3 (time (simulation s3));
             acc = calculateAcceleration s3 (time (simulation s3));
             s4 = addDataPoint (time (simulation s3)) pos vel acc s3;
             s5 = (if simulationMode s4 = Spring
                   then drawSpring (pos * PIXELS_PER_METER) s4
                   else drawPendulum pos s4);
             s6 = updateCurrentValues pos (Num vel) (Num acc) (time (simulation s5)) s5;
             (h, s7) = requestAnimationFrame s6
         in s7\<lparr> simulation := (simulation s7)\<lparr> animationId := Some h \<rparr> \<rparr>))"

definition switchMode :: "mode \<Rightarrow> state \<Rightarrow> state" where
  "switchMode m s = resetSimulation (s\<lparr> simulationMode := m \<rparr>)"

section \<open>Key points of the charts\<close>

datatype signal = Position | Velocity | Acceleration

record keyPoints =
  maximos :: "point list"
  minimos :: "point list"
  ceros :: "point list"

text \<open>
  The candidate times and extreme values that the loop body of \<open>calculateKeyPoints\<close>
  computes for the index \<open>n\<close>: \<open>(tMax, tMin, tZero1, tZero2, yMax, yMin)\<close>.
\<close>

definition keyPointCandidates ::
  "signal \<Rightarrow> state \<Rightarrow> int \<Rightarrow> real \<times> real \<times> real \<times> real \<times> real \<times> real" where
  "keyPointCandidates ty s n =
     (let omega = calculateOmega s; phi = phase (params s); A = getAmplitude s
      in case ty of
           Position \<Rightarrow>
             ((2 * pi * of_int n - phi) / omega,
              ((2 * of_int n + 1) * pi - phi) / omega,
              (pi / 2 + 2 * pi * of_int n - phi) / omega,
              (3 * pi / 2 + 2 * pi * of_int n - phi) / omega,
              (if simulationMode s = Pendulum then A * 180 / pi else A),
              (if simulationMode s = Pendulum then - A * 180 / pi else - A))
         | Velocity \<Rightarrow>
             ((3 * pi / 2 + 2 * pi * of_int n - phi) / omega,
              (pi / 2 + 2 * pi * of_int n - phi) / omega,
              (2 * pi * of_int n - phi) / omega,
              (pi + 2 * pi * of_int n - phi) / omega,
              A * omega,
              - A * omega)
         | Acceleration \<Rightarrow>
             (((2 * of_int n + 1) * pi - phi) / omega,
              (2 * pi * of_int n - phi) / omega,
              (pi / 2 + 2 * pi * of_int n - phi) / omega,
              (3 * pi / 2 + 2 * pi * of_int n - phi) / omega,
              A * omega * omega,
              - A * omega * omega))"

text \<open>Whether a candidate time is in the visible range and has already occurred.\<close>

definition shown :: "real \<Rightarrow> real \<Rightarrow> state \<Rightarrow> real \<Rightarrow> bool" where
  "shown minTime maxTime s t \<longleftrightarrow> t \<ge> minTime \<and> t \<le> maxTime \<and> t \<le> time (simulation s)"

definition calculateKeyPoints_body ::
  "real \<Rightarrow> real \<Rightarrow> signal \<Rightarrow> state \<Rightarrow> int \<Rightarrow> keyPoints \<Rightarrow> keyPoints" where
  "calculateKeyPoints_body minTime maxTime ty s n acc =
     (case keyPointCandidates ty s n of
        (tMax, tMin, tZero1, tZero2, yMax, yMin) \<Rightarrow>
          (let acc1 = (if shown minTime maxTime s tMax
                       then acc\<lparr> maximos := maximos acc @ [\<lparr> px = tMax, py = yMax \<rparr>] \<rparr>
                       else acc);
               acc2 = (if shown minTime maxTime s tMin
                       then acc1\<lparr> minimos := minimos acc1 @ [\<lparr> px = tMin, py = yMin \<rparr>] \<rparr>
                       else acc1);
               acc3 = (if shown minTime maxTime s tZero1
                       then acc2\<lparr> ceros := ceros acc2 @ [\<lparr> px = tZero1, py = 0 \<rparr>] \<rparr>
                       else acc2)
           in if shown minTime maxTime s tZero2
              then acc3\<lparr> ceros := ceros acc3 @ [\<lparr> px = tZero2, py = 0 \<rparr>] \<rparr>
              else acc3))"

text \<open>\<open>for (let n = startN; n <= endN; n++) { ... }\<close>\<close>

function calculateKeyPoints_loop ::
  "real \<Rightarrow> real \<Rightarrow> signal \<Rightarrow> state \<Rightarrow> int \<Rightarrow> int \<Rightarrow> keyPoints \<Rightarrow> keyPoints" where
  "calculateKeyPoints_loop minTime maxTime ty s n endN acc =
     (if n \<le> endN
      then calculateKeyPoints_loop minTime maxTime ty s (n + 1) endN
             (calculateKeyPoints_body minTime maxTime ty s n acc)
      else acc)"
  by pat_completeness auto
termination
  by (relation "measure (\<lambda>(minTime, maxTime, ty, s, n, endN, acc). nat (endN + 1 - n))") auto

declare calculateKeyPoints_loop.simps [simp del]

definition calculateKeyPoints :: "real \<Rightarrow> real \<Rightarrow> signal \<Rightarrow> state \<Rightarrow> keyPoints" where
  "calculateKeyPoints minTime maxTime ty s =
     (let omega = calculateOmega s;
          phi = phase (params s);
          startN = \<lfloor>(minTime * omega + phi) / (2 * pi)\<rfloor> - 1;
          endN = \<lceil>(maxTime * omega + phi) / (2 * pi)\<rceil> + 1
      in calculateKeyPoints_loop minTime maxTime ty s startN endN
           \<lparr> maximos = [], minimos = [], ceros = [] \<rparr>)"

text \<open>The time window that \<open>updateChart\<close> shows and the key points it asks for.\<close>

definition updateChart_window :: "state \<Rightarrow> real \<times> real" where
  "updateChart_window s =
     (let currentTime = time (simulation s)
      in if currentTime \<le> timeWindow (graphData s)
         then (0, timeWindow (graphData s))
         else (currentTime - timeWindow (graphData s), currentTime))"

definition updateChart_keyPoints :: "signal \<Rightarrow> state \<Rightarrow> keyPoints" where
  "updateChart_keyPoints ty s =
     calculateKeyPoints (fst (updateChart_window s)) (snd (updateChart_window s)) ty s"

section \<open>Dragging the mass\<close>

record mouseEvent =
  clientX :: real
  clientY :: real

definition isMouseOverMass :: "real \<Rightarrow> real \<Rightarrow> state \<Rightarrow> bool" where
  "isMouseOverMass mouseX mouseY s =
     (let distance = sqrt ((mouseX - fst (massPosition (dragState s)))\<^sup>2 +
                           (mouseY - snd (massPosition (dragState s)))\<^sup>2)
      in distance \<le> massRadius (dragState s))"

definition handleCanvasMouseDown :: "mouseEvent \<Rightarrow> state \<Rightarrow> state" where
  "handleCanvasMouseDown e s =
     (let mouseX = clientX e - rectLeft s;
          mouseY = clientY e - rectTop s
      in if isMouseOverMass mouseX mouseY s
         then (let s1 = s\<lparr> dragState := (dragState s)
                           \<lparr> isDragging := True, wasRunning := isRunning (simulation s) \<rparr> \<rparr>;
                   s2 = (if isRunning (simulation s1) then pauseSimulation s1 else s1);
                   s3 = s2\<lparr> simulation := (simulation s2)\<lparr> time := 0 \<rparr> \<rparr>
               in clearSeries s3)
         else s)"

text \<open>
  \<open>while (internalTime < 0) { internalTime += calculatePeriod(); }\<close>: the loop of both
  drag handlers. It need not end, so it returns an option.
\<close>

partial_function (option) dragTimeLoop :: "state \<Rightarrow> jsnum \<Rightarrow> jsnum option" where
  "dragTimeLoop s internalTime =
     (if jsNegative internalTime
      then dragTimeLoop s (jsPlus internalTime (calculatePeriod s))
      else Some internalTime)"

text \<open>The displacement in pixels that \<open>handleSpringDrag\<close> draws.\<close>

definition springDragDisplacement :: "real \<Rightarrow> state \<Rightarrow> real" where
  "springDragDisplacement mouseY s =
     (let equilibriumY = canvasHeight s / 2;
          newDisplacement = mouseY - equilibriumY;
          maxDisplacementPixels = amplitude (params s) * PIXELS_PER_METER
      in max (- maxDisplacementPixels) (min maxDisplacementPixels newDisplacement))"

text \<open>The internal time that \<open>handleSpringDrag\<close> solves for.\<close>

definition springDragInternalTime :: "real \<Rightarrow> state \<Rightarrow> jsnum option" where
  "springDragInternalTime mouseY s =
     (let newPosition = springDragDisplacement mouseY s / PIXELS_PER_METER;
          omega = calculateOmega s;
          A = amplitude (params s);
          ratio = Math_max (- 1) (Math_min 1 (jsDivide newPosition A))
      in dragTimeLoop s (jsQuotient (jsMinus (Math_acos ratio) (phase (params s))) omega))"

definition handleSpringDrag :: "real \<Rightarrow> state \<Rightarrow> state option" where
  "handleSpringDrag mouseY s =
     (case springDragInternalTime mouseY s of
        None \<Rightarrow> None
      | Some internalTime \<Rightarrow>
          (let newDisplacement = springDragDisplacement mouseY s;
               newPosition = newDisplacement / PIXELS_PER_METER;
               vel = atTime (calculateVelocity s) internalTime;
               acc = atTime (calculateAcceleration s) internalTime;
               s1 = s\<lparr> simulation := (simulation s)\<lparr> time := 0 \<rparr> \<rparr>;
               s2 = drawSpring newDisplacement s1
           in Some (updateCurrentValues newPosition vel acc (time (simulation s2)) s2)))"

text \<open>The angle that \<open>handlePendulumDrag\<close> draws.\<close>

definition pendulumDragAngle :: "real \<Rightarrow> real \<Rightarrow> state \<Rightarrow> real" where
  "pendulumDragAngle mouseX mouseY s =
     (let pivotX = canvasWidth s / 2;
          pivotY = 50;
          dx = mouseX - pivotX;
          dy = mouseY - pivotY;
          newAngle = atan2 dx dy;
          maxAngle = pendulumAngle (params s) * pi / 180
      in max (- maxAngle) (min maxAngle newAngle))"

text \<open>The internal time that \<open>handlePendulumDrag\<close> solves for.\<close>

definition pendulumDragInternalTime :: "real \<Rightarrow> real \<Rightarrow> state \<Rightarrow> jsnum option" where
  "pendulumDragInternalTime mouseX mouseY s =
     (let newAngle = pendulumDragAngle mouseX mouseY s;
          omega = calculateOmega s;
          A = pendulumAngle (params s) * pi / 180;
          ratio = Math_max (- 1) (Math_min 1 (jsDivide newAngle A))
      in dragTimeLoop s (jsQuotient (jsMinus (Math_acos ratio) (phase (params s))) omega))"

definition handlePendulumDrag :: "real \<Rightarrow> real \<Rightarrow> state \<Rightarrow> state option" where
  "handlePendulumDrag mouseX mouseY s =
     (case pendulumDragInternalTime mouseX mouseY s of
        None \<Rightarrow> None
      | Some internalTime \<Rightarrow>
          (let newAngle = pendulumDragAngle mouseX mouseY s;
               vel = atTime (calculateVelocity s) internalTime;
               acc = atTime (calculateAcceleration s) internalTime;
               s1 = s\<lparr> simulation := (simulation s)\<lparr> time := 0 \<rparr> \<rparr>;
               s2 = drawPendulum newAngle s1
           in Some (updateCurrentValues newAngle vel acc (time (simulation s2)) s2)))"

definition handleCanvasMouseMove :: "mouseEvent \<Rightarrow> state \<Rightarrow> state option" where
  "handleCanvasMouseMove e s =
     (if \<not> isDragging (dragState s) then Some s
      else (let mouseY = clientY e - rectTop s
            in if simulationMode s = Spring then handleSpringDrag mouseY s
               else handlePendulumDrag (clientX e - rectLeft s) mouseY s))"

definition handleCanvasMouseUp :: "state \<Rightarrow> state" where
  "handleCanvasMouseUp s =
     (if isDragging (dragState s)
      then s\<lparr> dragState := (dragState s)\<lparr> isDragging := False \<rparr> \<rparr>
      else s)"

section \<open>Events\<close>

text \<open>
  What the page reacts to: the mode buttons, the sliders and text inputs, the three
  control buttons, a frame delivered by the browser for the oldest pending request, and
  the mouse on the canvas (leaving the canvas runs the mouse-up handler).
\<close>

datatype event =
    SwitchMode mode
  | SliderInput field real
  | ManualInput field "real option"
  | Start
  | Pause
  | Reset
  | Frame real
  | MouseDown mouseEvent
  | MouseMove mouseEvent
  | MouseUp

fun step :: "event \<Rightarrow> state \<Rightarrow> state option" where
  "step (SwitchMode m) s = Some (switchMode m s)"
| "step (SliderInput k v) s = Some (sliderInput k v s)"
| "step (ManualInput k v) s = Some (manualInput k v s)"
| "step Start s = Some (startSimulation s)"
| "step Pause s = Some (pauseSimulation s)"
| "step Reset s = Some (resetSimulation s)"
| "step (Frame timestamp) s =
     (case frameRequests s of
        [] \<Rightarrow> Some s
      | h # rest \<Rightarrow> Some (animate timestamp (s\<lparr> frameRequests := rest \<rparr>)))"
| "step (MouseDown e) s = Some (handleCanvasMouseDown e s)"
| "step (MouseMove e) s = handleCanvasMouseMove e s"
| "step MouseUp s = Some (handleCanvasMouseUp s)"

fun run :: "event list \<Rightarrow> state \<Rightarrow> state option" where
  "run [] s = Some s"
| "run (e # es) s = (case step e s of None \<Rightarrow> None | Some s1 \<Rightarrow> run es s1)"

section \<open>Properties of the sample series\<close>

text \<open>
  The three series are parallel: they have the same times, element by element (and so
  the same length).
\<close>

definition parallel :: "graphData_t \<Rightarrow> bool" where
  "parallel g \<longleftrightarrow>
     map px (position g) = map px (velocity g) \<and>
     map px (velocity g) = map px (acceleration g)"

text \<open>A sequence of appends \<open>(time, position, velocity, acceleration)\<close>, oldest first.\<close>

fun appendAll :: "(real \<times> real \<times> real \<times> real) list \<Rightarrow> state \<Rightarrow> state" where
  "appendAll [] s = s"
| "appendAll ((t, pos, vel, acc) # rest) s = appendAll rest (addDataPoint t pos vel acc s)"

text \<open>The points that such a sequence pushes into each series.\<close>

definition positionPoints :: "state \<Rightarrow> (real \<times> real \<times> real \<times> real) list \<Rightarrow> point list" where
  "positionPoints s samples =
     map (\<lambda>(t, pos, vel, acc).
            \<lparr> px = t, py = (if simulationMode s = Pendulum then pos * 180 / pi else pos) \<rparr>)
         samples"

definition velocityPoints :: "(real \<times> real \<times> real \<times> real) list \<Rightarrow> point list" where
  "velocityPoints samples = map (\<lambda>(t, pos, vel, acc). \<lparr> px = t, py = vel \<rparr>) samples"

definition accelerationPoints :: "(real \<times> real \<times> real \<times> real) list \<Rightarrow> point list" where
  "accelerationPoints samples = map (\<lambda>(t, pos, vel, acc). \<lparr> px = t, py = acc \<rparr>) samples"

section \<open>The initial state\<close>

definition initialParams :: params_t where
  "initialParams = \<lparr> mass = 1.0, springConstant = 40, amplitude = 0.15,
     pendulumLength = 1.5, pendulumAngle = 10, gravity = 9.8, phase = 0 \<rparr>"

definition initialSimulation :: simulation_t where
  "initialSimulation = \<lparr> time = 0, isRunning = False, animationId = None,
     lastTimestamp = 0, timeScale = 1 \<rparr>"

definition initialGraphData :: graphData_t where
  "initialGraphData = \<lparr> position = [], velocity = [], acceleration = [],
     maxPoints = 500, timeWindow = 5 \<rparr>"

definition initialDragState :: dragState_t where
  "initialDragState = \<lparr> isDragging = False, wasRunning = False,
     massPosition = (0, 0), massRadius = 25 \<rparr>"

text \<open>
  The state when the script has been loaded, for a canvas of the given size and page
  offset.
\<close>

definition initialState :: "real \<Rightarrow> real \<Rightarrow> real \<Rightarrow> real \<Rightarrow> state" where
  "initialState w h l t = \<lparr> simulationMode = Spring, params = initialParams,
     simulation = initialSimulation, validationState = (\<lambda>k. True),
     dragState = initialDragState, graphData = initialGraphData,
     canvasWidth = w, canvasHeight = h, rectLeft = l, rectTop = t,
     frameRequests = [], nextHandle = 1, console = [],
     startBtnDisabled = False, currentValues = (0, Num 0, Num 0, 0) \<rparr>"

text \<open>The state once the \<open>DOMContentLoaded\<close> handler has painted the spring at rest.\<close>

definition loadedState :: "real \<Rightarrow> real \<Rightarrow> real \<Rightarrow> real \<Rightarrow> state" where
  "loadedState w h l t = drawSpring 0 (updateStartButtonState (initialState w h l t))"

text \<open>The initial state with the simulation clock at two seconds.\<close>

definition atTwoSeconds :: state where
  "atTwoSeconds = (initialState 400 400 0 0)\<lparr> simulation := initialSimulation\<lparr> time := 2 \<rparr> \<rparr>"

text \<open>The state after a start and a first frame delivered at 1000 ms.\<close>

definition afterFirstFrame :: state where
  "afterFirstFrame = animate 1000 (startSimulation (initialState 400 400 0 0))"

text \<open>The initial state after 7 has been typed into the text input of the mass.\<close>

definition massOutOfRange :: state where
  "massOutOfRange = manualInput Mass (Some 7) (initialState 400 400 0 0)"



section \<open>Kinematics\<close>

lemma calculateOmega_pos:
  "positiveParams s \<Longrightarrow> 0 < calculateOmega s"
  by (simp add: positiveParams_def calculateOmega_def)

lemma positiveParams_initialState [simp]: "positiveParams (initialState w h l t)"
  by (simp add: positiveParams_def initialState_def initialParams_def)

lemma mode_initialState [simp]: "simulationMode (initialState w h l t) = Spring"
  by (simp add: initialState_def)

lemma phase_initialState [simp]: "phase (params (initialState w h l t)) = 0"
  by (simp add: initialState_def initialParams_def)

lemma omega_initialState: "calculateOmega (initialState w h l t) = sqrt 40"
  by (simp add: calculateOmega_def initialState_def initialParams_def)

lemma amplitude_initialState: "getAmplitude (initialState w h l t) = 0.15"
  by (simp add: getAmplitude_def initialState_def initialParams_def)

text \<open>
  Claim C1. In both modes and at every time \<open>t\<close>, with positive mass, spring constant,
  gravity and pendulum length: the angular frequency is \<open>sqrt (springConstant / mass)\<close>
  for the spring and \<open>sqrt (gravity / pendulumLength)\<close> for the pendulum, the amplitude
  \<open>A\<close> is \<open>amplitude\<close> for the spring and \<open>pendulumAngle * pi / 180\<close> for the pendulum, and
  position, velocity and acceleration are \<open>A cos (omega t + phase)\<close>,
  \<open>- A omega sin (omega t + phase)\<close> and \<open>- A omega\<^sup>2 cos (omega t + phase)\<close>.
\<close>

theorem C1_kinematics_formulas:
  assumes "positiveParams s"
  shows "calculateOmega s =
           (case simulationMode s of
              Spring \<Rightarrow> sqrt (springConstant (params s) / mass (params s))
            | Pendulum \<Rightarrow> sqrt (gravity (params s) / pendulumLength (params s))) \<and>
         getAmplitude s =
           (case simulationMode s of
              Spring \<Rightarrow> amplitude (params s)
            | Pendulum \<Rightarrow> pendulumAngle (params s) * pi / 180) \<and>
         calculatePosition s t =
           getAmplitude s * cos (calculateOmega s * t + phase (params s)) \<and>
         calculateVelocity s t =
           - getAmplitude s * calculateOmega s *
             sin (calculateOmega s * t + phase (params s)) \<and>
         calculateAcceleration s t =
           - getAmplitude s * (calculateOmega s)\<^sup>2 *
             cos (calculateOmega s * t + phase (params s))"
proof -
  have "calculateOmega s =
           (case simulationMode s of
              Spring \<Rightarrow> sqrt (springConstant (params s) / mass (params s))
            | Pendulum \<Rightarrow> sqrt (gravity (params s) / pendulumLength (params s)))"
    by (cases "simulationMode s") (simp_all add: calculateOmega_def)
  moreover have "getAmplitude s =
           (case simulationMode s of
              Spring \<Rightarrow> amplitude (params s)
            | Pendulum \<Rightarrow> pendulumAngle (params s) * pi / 180)"
    by (cases "simulationMode s") (simp_all add: getAmplitude_def)
  moreover have "calculatePosition s t =
           getAmplitude s * cos (calculateOmega s * t + phase (params s))"
    by (simp add: calculatePosition_def Let_def)
  moreover have "calculateVelocity s t =
           - getAmplitude s * calculateOmega s *
             sin (calculateOmega s * t + phase (params s))"
    by (simp add: calculateVelocity_def Let_def)
  moreover have "calculateAcceleration s t =
           - getAmplitude s * (calculateOmega s)\<^sup>2 *
             cos (calculateOmega s * t + phase (params s))"
    by (simp add: calculateAcceleration_def Let_def power2_eq_square)
  ultimately show ?thesis by blast
qed

theorem C1_kinematics_formulas_witness:
  "positiveParams (initialState 400 400 0 0) \<and>
   calculateOmega (initialState 400 400 0 0) = sqrt 40 \<and>
   getAmplitude (initialState 400 400 0 0) = 0.15 \<and>
   calculatePosition (initialState 400 400 0 0) 0 = 0.15 \<and>
   calculateVelocity (initialState 400 400 0 0) 0 = 0 \<and>
   calculateAcceleration (initialState 400 400 0 0) 0 = - 6"
  using C1_kinematics_formulas [OF positiveParams_initialState, of 400 400 0 0 0]
  by (simp add: omega_initialState amplitude_initialState)

text \<open>
  Claim C5. In both modes, for positive parameters and every time \<open>t\<close>, the acceleration
  is \<open>- omega\<^sup>2\<close> times the position, with \<open>omega\<close> the angular frequency of the current mode.
\<close>

theorem C5_acceleration_is_minus_omega2_position:
  "positiveParams s \<Longrightarrow>
   calculateAcceleration s t = - (calculateOmega s)\<^sup>2 * calculatePosition s t"
  by (simp add: calculateAcceleration_def calculatePosition_def Let_def power2_eq_square)

theorem C5_acceleration_is_minus_omega2_position_witness:
  "positiveParams (initialState 400 400 0 0) \<and>
   calculateAcceleration (initialState 400 400 0 0) 1 =
     - 40 * calculatePosition (initialState 400 400 0 0) 1"
proof -
  have w: "(calculateOmega (initialState 400 400 0 0))\<^sup>2 = 40"
    by (simp add: omega_initialState)
  show ?thesis
    using C5_acceleration_is_minus_omega2_position [of "initialState 400 400 0 0" 1]
    by (simp only: w positiveParams_initialState simp_thms)
qed

text \<open>
  Claim C6. In both modes, when the amplitude \<open>A\<close> and the angular frequency \<open>omega\<close> are
  positive, \<open>position(t)\<^sup>2 / A\<^sup>2 + velocity(t)\<^sup>2 / (A omega)\<^sup>2 = 1\<close> at every time \<open>t\<close>,
  exactly over the reals.
\<close>

theorem C6_energy_identity:
  assumes "0 < getAmplitude s" and "0 < calculateOmega s"
  shows "(calculatePosition s t)\<^sup>2 / (getAmplitude s)\<^sup>2 +
         (calculateVelocity s t)\<^sup>2 / (getAmplitude s * calculateOmega s)\<^sup>2 = 1"
proof -
  let ?A = "getAmplitude s" and ?w = "calculateOmega s"
  let ?u = "?w * t + phase (params s)"
  have A: "?A \<noteq> 0" and Aw: "?A * ?w \<noteq> 0" using assms by simp_all
  have "(calculatePosition s t)\<^sup>2 / ?A\<^sup>2 = (cos ?u)\<^sup>2"
    using A by (simp add: calculatePosition_def Let_def power_mult_distrib)
  moreover have "(calculateVelocity s t)\<^sup>2 = (?A * ?w)\<^sup>2 * (sin ?u)\<^sup>2"
    by (simp add: calculateVelocity_def Let_def power_mult_distrib)
  then have "(calculateVelocity s t)\<^sup>2 / (?A * ?w)\<^sup>2 = (sin ?u)\<^sup>2"
    using Aw by simp
  ultimately show ?thesis by simp
qed

theorem C6_energy_identity_witness:
  "0 < getAmplitude (initialState 400 400 0 0) \<and>
   0 < calculateOmega (initialState 400 400 0 0) \<and>
   (calculatePosition (initialState 400 400 0 0) 1)\<^sup>2 / (0.15)\<^sup>2 +
   (calculateVelocity (initialState 400 400 0 0) 1)\<^sup>2 / (0.15 * sqrt 40)\<^sup>2 = 1"
proof -
  have A: "getAmplitude (initialState 400 400 0 0) = 0.15"
    by (rule amplitude_initialState)
  have w: "calculateOmega (initialState 400 400 0 0) = sqrt 40"
    by (rule omega_initialState)
  have "0 < getAmplitude (initialState 400 400 0 0)"
    and "0 < calculateOmega (initialState 400 400 0 0)"
    by (simp_all add: A w)
  then show ?thesis
    using C6_energy_identity [of "initialState 400 400 0 0" 1] A w by simp
qed

section \<open>The sample buffer\<close>

lemma shift_eq_drop: "shift xs = drop 1 xs"
  by (cases xs) (simp_all add: shift_def)

lemma dropWhile_tl_eq:
  "xs \<noteq> [] \<Longrightarrow> P (hd xs) \<Longrightarrow> dropWhile P xs = dropWhile P (shift xs)"
  by (cases xs) (simp_all add: shift_def)

lemma takeWhile_len_shift:
  "xs \<noteq> [] \<Longrightarrow> P (hd xs) \<Longrightarrow>
   length (takeWhile P xs) = Suc (length (takeWhile P (shift xs)))"
  by (cases xs) (simp_all add: shift_def)

lemma addDataPoint_evict_eq:
  "addDataPoint_evict minTime g =
     g\<lparr> position := dropWhile (\<lambda>q. px q < minTime) (position g),
        velocity := drop (length (takeWhile (\<lambda>q. px q < minTime) (position g))) (velocity g),
        acceleration :=
          drop (length (takeWhile (\<lambda>q. px q < minTime) (position g))) (acceleration g) \<rparr>"
proof (induction minTime g rule: addDataPoint_evict.induct)
  case (1 minTime g)
  show ?case
  proof (cases "length (position g) > 0 \<and> px (hd (position g)) < minTime")
    case True
    then have ne: "position g \<noteq> []" and hd: "px (hd (position g)) < minTime" by auto
    show ?thesis
      apply (subst addDataPoint_evict.simps)
      apply (simp only: True if_True "1.IH"[OF True])
      using dropWhile_tl_eq[of "position g" "\<lambda>q. px q < minTime", OF ne hd]
        takeWhile_len_shift[of "position g" "\<lambda>q. px q < minTime", OF ne hd]
      apply (simp add: shift_eq_drop)
      done
  next
    case False
    then have "position g = [] \<or> \<not> px (hd (position g)) < minTime" by auto
    then have "takeWhile (\<lambda>q. px q < minTime) (position g) = []"
      and "dropWhile (\<lambda>q. px q < minTime) (position g) = position g"
      by (cases "position g"; auto)+
    then show ?thesis
      by (subst addDataPoint_evict.simps) (simp only: False if_False list.size drop_0, simp)
  qed
qed


lemma takeWhile_len_parallel:
  fixes xs ys :: "'a point_scheme list"
  assumes "map px xs = map px ys"
  shows "length (takeWhile (\<lambda>q. px q < m) xs) = length (takeWhile (\<lambda>q. px q < m) ys)"
proof -
  have h: "length (takeWhile (\<lambda>q. px q < m) zs) = length (takeWhile (\<lambda>t. t < m) (map px zs))"
    for zs :: "'a point_scheme list"
    by (simp add: takeWhile_map comp_def)
  have "length (takeWhile (\<lambda>q. px q < m) xs) = length (takeWhile (\<lambda>t. t < m) (map px xs))"
    by (rule h)
  also have "\<dots> = length (takeWhile (\<lambda>t. t < m) (map px ys))"
    by (simp only: assms)
  also have "\<dots> = length (takeWhile (\<lambda>q. px q < m) ys)"
    by (rule h [symmetric])
  finally show ?thesis .
qed

lemma addDataPoint_evict_parallel:
  assumes "parallel g"
  shows "addDataPoint_evict minTime g =
     g\<lparr> position := dropWhile (\<lambda>q. px q < minTime) (position g),
        velocity := dropWhile (\<lambda>q. px q < minTime) (velocity g),
        acceleration := dropWhile (\<lambda>q. px q < minTime) (acceleration g) \<rparr>"
proof -
  have pv: "map px (velocity g) = map px (position g)"
    and pa: "map px (acceleration g) = map px (position g)"
    using assms by (simp_all add: parallel_def)
  show ?thesis
    by (simp add: addDataPoint_evict_eq dropWhile_eq_drop
        takeWhile_len_parallel[OF pv] takeWhile_len_parallel[OF pa])
qed

lemma map_px_dropWhile:
  "map px (dropWhile (\<lambda>q. px q < m) xs) = dropWhile (\<lambda>t. t < m) (map px xs)"
  by (simp add: dropWhile_map comp_def)

lemma parallel_evict: "parallel g \<Longrightarrow> parallel (addDataPoint_evict minTime g)"
  by (simp add: addDataPoint_evict_parallel) (simp add: parallel_def map_px_dropWhile)

lemma parallel_shift:
  "parallel g \<Longrightarrow>
   parallel (g\<lparr> position := shift (position g), velocity := shift (velocity g),
                acceleration := shift (acceleration g) \<rparr>)"
  by (simp add: parallel_def shift_eq_drop drop_map [symmetric] del: One_nat_def)

lemma graphData_addDataPoint:
  assumes "parallel (graphData s)"
  shows "graphData (addDataPoint t pos vel acc s) =
     (graphData s)
       \<lparr> position := dropWhile (\<lambda>q. px q < t - timeWindow (graphData s) - 0.5)
            (position (graphData s) @ positionPoints s [(t, pos, vel, acc)]),
         velocity := dropWhile (\<lambda>q. px q < t - timeWindow (graphData s) - 0.5)
            (velocity (graphData s) @ velocityPoints [(t, pos, vel, acc)]),
         acceleration := dropWhile (\<lambda>q. px q < t - timeWindow (graphData s) - 0.5)
            (acceleration (graphData s) @ accelerationPoints [(t, pos, vel, acc)]) \<rparr>"
proof -
  let ?g1 = "(graphData s)
       \<lparr> position := position (graphData s) @ positionPoints s [(t, pos, vel, acc)],
         velocity := velocity (graphData s) @ velocityPoints [(t, pos, vel, acc)],
         acceleration := acceleration (graphData s) @ accelerationPoints [(t, pos, vel, acc)] \<rparr>"
  have par: "parallel ?g1"
    using assms
    by (simp add: parallel_def positionPoints_def velocityPoints_def accelerationPoints_def)
  have "graphData (addDataPoint t pos vel acc s) =
          addDataPoint_evict (t - timeWindow (graphData s) - 0.5) ?g1"
    by (simp add: addDataPoint_def Let_def positionPoints_def velocityPoints_def
        accelerationPoints_def)
  then show ?thesis
    by (simp add: addDataPoint_evict_parallel[OF par])
qed

lemma parallel_addDataPoint:
  "parallel (graphData s) \<Longrightarrow> parallel (graphData (addDataPoint t pos vel acc s))"
  by (simp add: graphData_addDataPoint)
     (simp add: parallel_def map_px_dropWhile positionPoints_def velocityPoints_def
       accelerationPoints_def)

lemma addDataPoint_other_fields [simp]:
  "simulationMode (addDataPoint t pos vel acc s) = simulationMode s"
  "simulation (addDataPoint t pos vel acc s) = simulation s"
  "params (addDataPoint t pos vel acc s) = params s"
  "frameRequests (addDataPoint t pos vel acc s) = frameRequests s"
  by (simp_all add: addDataPoint_def Let_def)

lemma timeWindow_evict [simp]:
  "timeWindow (addDataPoint_evict minTime g) = timeWindow g"
  by (simp add: addDataPoint_evict_eq)

lemma timeWindow_addDataPoint [simp]:
  "timeWindow (graphData (addDataPoint t pos vel acc s)) = timeWindow (graphData s)"
  by (simp add: addDataPoint_def Let_def)


lemma appendAll_append: "appendAll (xs @ ys) s = appendAll ys (appendAll xs s)"
  by (induction xs s rule: appendAll.induct) simp_all

lemma appendAll_fields [simp]:
  "simulationMode (appendAll xs s) = simulationMode s"
  "timeWindow (graphData (appendAll xs s)) = timeWindow (graphData s)"
  by (induction xs s rule: appendAll.induct) simp_all

lemma parallel_appendAll:
  "parallel (graphData s) \<Longrightarrow> parallel (graphData (appendAll xs s))"
  by (induction xs s rule: appendAll.induct) (simp_all add: parallel_addDataPoint)

lemma dropWhile_chain:
  "(\<And>q. P q \<Longrightarrow> Q q) \<Longrightarrow> dropWhile Q (dropWhile P xs @ ys) = dropWhile Q (xs @ ys)"
  by (induction xs) auto

lemma dropWhile_thr_chain:
  fixes xs ys :: "'a point_scheme list"
  shows "a \<le> b \<Longrightarrow>
    dropWhile (\<lambda>q. px q < b) (dropWhile (\<lambda>q. px q < a) xs @ ys) =
    dropWhile (\<lambda>q. px q < b) (xs @ ys)"
  by (rule dropWhile_chain) simp

lemma points_append:
  "positionPoints s (xs @ ys) = positionPoints s xs @ positionPoints s ys"
  "velocityPoints (xs @ ys) = velocityPoints xs @ velocityPoints ys"
  "accelerationPoints (xs @ ys) = accelerationPoints xs @ accelerationPoints ys"
  by (simp_all add: positionPoints_def velocityPoints_def accelerationPoints_def)

lemma positionPoints_appendAll [simp]:
  "positionPoints (appendAll xs s) ys = positionPoints s ys"
  by (simp add: positionPoints_def)

lemma graphData_appendAll:
  assumes "samples \<noteq> []" and "sorted (map fst samples)" and "parallel (graphData s)"
  shows "graphData (appendAll samples s) =
     (graphData s)
       \<lparr> position :=
           dropWhile (\<lambda>q. px q < fst (last samples) - timeWindow (graphData s) - 0.5)
             (position (graphData s) @ positionPoints s samples),
         velocity :=
           dropWhile (\<lambda>q. px q < fst (last samples) - timeWindow (graphData s) - 0.5)
             (velocity (graphData s) @ velocityPoints samples),
         acceleration :=
           dropWhile (\<lambda>q. px q < fst (last samples) - timeWindow (graphData s) - 0.5)
             (acceleration (graphData s) @ accelerationPoints samples) \<rparr>"
  using assms
proof (induction samples rule: rev_nonempty_induct)
  case (single x)
  obtain t pos vel acc where x: "x = (t, pos, vel, acc)" by (cases x) auto
  show ?case using single by (simp add: x graphData_addDataPoint)
next
  case (snoc x xs)
  obtain t pos vel acc where x: "x = (t, pos, vel, acc)" by (cases x) auto
  have sorted_xs: "sorted (map fst xs)" and le: "fst (last xs) \<le> t"
    using snoc.prems(1) snoc.hyps(1) by (auto simp: sorted_append x last_in_set)
  have IH: "graphData (appendAll xs s) =
     (graphData s)
       \<lparr> position :=
           dropWhile (\<lambda>q. px q < fst (last xs) - timeWindow (graphData s) - 0.5)
             (position (graphData s) @ positionPoints s xs),
         velocity :=
           dropWhile (\<lambda>q. px q < fst (last xs) - timeWindow (graphData s) - 0.5)
             (velocity (graphData s) @ velocityPoints xs),
         acceleration :=
           dropWhile (\<lambda>q. px q < fst (last xs) - timeWindow (graphData s) - 0.5)
             (acceleration (graphData s) @ accelerationPoints xs) \<rparr>"
    using snoc.IH sorted_xs snoc.prems(2) by blast
  have par: "parallel (graphData (appendAll xs s))"
    by (rule parallel_appendAll [OF snoc.prems(2)])
  have "graphData (appendAll (xs @ [x]) s) =
          graphData (addDataPoint t pos vel acc (appendAll xs s))"
    by (simp add: appendAll_append x)
  also have "\<dots> = (graphData (appendAll xs s))
       \<lparr> position := dropWhile (\<lambda>q. px q < t - timeWindow (graphData s) - 0.5)
            (position (graphData (appendAll xs s)) @ positionPoints s [(t, pos, vel, acc)]),
         velocity := dropWhile (\<lambda>q. px q < t - timeWindow (graphData s) - 0.5)
            (velocity (graphData (appendAll xs s)) @ velocityPoints [(t, pos, vel, acc)]),
         acceleration := dropWhile (\<lambda>q. px q < t - timeWindow (graphData s) - 0.5)
            (acceleration (graphData (appendAll xs s)) @ accelerationPoints [(t, pos, vel, acc)]) \<rparr>"
    by (simp add: graphData_addDataPoint [OF par])
  finally show ?case
    using le by (simp add: IH x points_append dropWhile_thr_chain)
qed

lemma dropWhile_sorted_filter:
  "sorted (map f xs) \<Longrightarrow> dropWhile (\<lambda>q. f q < (c::real)) xs = filter (\<lambda>q. c \<le> f q) xs"
proof (induction xs)
  case Nil
  then show ?case by simp
next
  case (Cons a xs)
  show ?case
  proof (cases "f a < c")
    case True
    then show ?thesis using Cons by simp
  next
    case False
    then have "\<forall>q\<in>set xs. c \<le> f q" using Cons.prems by auto
    then have "filter (\<lambda>q. c \<le> f q) xs = xs" by simp
    then show ?thesis using False by simp
  qed
qed

lemma map_px_points:
  "map px (positionPoints s samples) = map fst samples"
  "map px (velocityPoints samples) = map fst samples"
  "map px (accelerationPoints samples) = map fst samples"
  by (simp_all add: positionPoints_def velocityPoints_def accelerationPoints_def
      split_def comp_def)


lemma parallel_nth:
  assumes "parallel g"
  shows "length (position g) = length (velocity g) \<and>
         length (velocity g) = length (acceleration g) \<and>
         (\<forall>i < length (position g).
            px (position g ! i) = px (velocity g ! i) \<and>
            px (velocity g ! i) = px (acceleration g ! i))"
proof -
  have pv: "map px (position g) = map px (velocity g)"
    and va: "map px (velocity g) = map px (acceleration g)"
    using assms by (simp_all add: parallel_def)
  have l1: "length (position g) = length (velocity g)"
    using pv by (rule map_eq_imp_length_eq)
  have l2: "length (velocity g) = length (acceleration g)"
    using va by (rule map_eq_imp_length_eq)
  have "px (position g ! i) = px (velocity g ! i) \<and> px (velocity g ! i) = px (acceleration g ! i)"
    if "i < length (position g)" for i
  proof -
    have "map px (position g) ! i = map px (velocity g) ! i"
      and "map px (velocity g) ! i = map px (acceleration g) ! i"
      using pv va by simp_all
    then show ?thesis using that l1 l2 by simp
  qed
  then show ?thesis using l1 l2 by blast
qed

text \<open>
  Claim C3. After a sequence of appends with non-decreasing times into empty series,
  ending at time \<open>T\<close>, with window \<open>W\<close>: every sample retained in each of the three
  series has a time of at least \<open>T - W - 0.5\<close>; each series holds exactly the appended
  samples with such a time, so none of them was evicted; and each series is a suffix of
  what was appended, so samples leave from the front only.
\<close>

theorem C3_window_eviction:
  assumes "samples \<noteq> []" and "sorted (map fst samples)"
    and "position (graphData s) = []" and "velocity (graphData s) = []"
    and "acceleration (graphData s) = []"
  shows "let thr = fst (last samples) - timeWindow (graphData s) - 0.5;
             g = graphData (appendAll samples s)
         in (\<forall>p \<in> set (position g) \<union> set (velocity g) \<union> set (acceleration g). thr \<le> px p) \<and>
            position g = filter (\<lambda>p. thr \<le> px p) (positionPoints s samples) \<and>
            velocity g = filter (\<lambda>p. thr \<le> px p) (velocityPoints samples) \<and>
            acceleration g = filter (\<lambda>p. thr \<le> px p) (accelerationPoints samples) \<and>
            suffix (position g) (positionPoints s samples) \<and>
            suffix (velocity g) (velocityPoints samples) \<and>
            suffix (acceleration g) (accelerationPoints samples)"
proof -
  define thr where "thr = fst (last samples) - timeWindow (graphData s) - 0.5"
  define g where "g = graphData (appendAll samples s)"
  have par: "parallel (graphData s)"
    using assms(3-5) by (simp add: parallel_def)
  have g: "g = (graphData s)
       \<lparr> position := dropWhile (\<lambda>q. px q < thr) (positionPoints s samples),
         velocity := dropWhile (\<lambda>q. px q < thr) (velocityPoints samples),
         acceleration := dropWhile (\<lambda>q. px q < thr) (accelerationPoints samples) \<rparr>"
    unfolding g_def thr_def
    using graphData_appendAll [OF assms(1,2) par] assms(3-5) by simp
  have p: "position g = filter (\<lambda>p. thr \<le> px p) (positionPoints s samples)"
    and v: "velocity g = filter (\<lambda>p. thr \<le> px p) (velocityPoints samples)"
    and a: "acceleration g = filter (\<lambda>p. thr \<le> px p) (accelerationPoints samples)"
    using assms(2) by (simp_all add: g dropWhile_sorted_filter map_px_points)
  have sp: "suffix (position g) (positionPoints s samples)"
    and sv: "suffix (velocity g) (velocityPoints samples)"
    and sa: "suffix (acceleration g) (accelerationPoints samples)"
    by (simp_all add: g suffix_dropWhile)
  have "\<forall>p \<in> set (position g) \<union> set (velocity g) \<union> set (acceleration g). thr \<le> px p"
    by (auto simp: p v a)
  then show ?thesis
    unfolding Let_def g_def [symmetric] thr_def [symmetric]
    using p v a sp sv sa by blast
qed

lemma timeWindow_initialState [simp]:
  "timeWindow (graphData (initialState w h l t)) = 5"
  by (simp add: initialState_def initialGraphData_def)

lemma series_initialState [simp]:
  "position (graphData (initialState w h l t)) = []"
  "velocity (graphData (initialState w h l t)) = []"
  "acceleration (graphData (initialState w h l t)) = []"
  by (simp_all add: initialState_def initialGraphData_def)

theorem C3_window_eviction_witness:
  "position (graphData (appendAll [(0, 1, 2, 3), (3, 1, 2, 3), (6, 1, 2, 3)]
      (initialState 400 400 0 0))) = [\<lparr> px = 3, py = 1 \<rparr>, \<lparr> px = 6, py = 1 \<rparr>] \<and>
   velocity (graphData (appendAll [(0, 1, 2, 3), (3, 1, 2, 3), (6, 1, 2, 3)]
      (initialState 400 400 0 0))) = [\<lparr> px = 3, py = 2 \<rparr>, \<lparr> px = 6, py = 2 \<rparr>] \<and>
   acceleration (graphData (appendAll [(0, 1, 2, 3), (3, 1, 2, 3), (6, 1, 2, 3)]
      (initialState 400 400 0 0))) = [\<lparr> px = 3, py = 3 \<rparr>, \<lparr> px = 6, py = 3 \<rparr>]"
proof -
  let ?samples = "[(0, 1, 2, 3), (3, 1, 2, 3), (6, 1, 2, 3)] :: (real \<times> real \<times> real \<times> real) list"
  have "?samples \<noteq> []" and "sorted (map fst ?samples)" by simp_all
  from C3_window_eviction [OF this, of "initialState 400 400 0 0"]
  show ?thesis
    by (simp add: Let_def positionPoints_def velocityPoints_def accelerationPoints_def)
qed

section \<open>The series stay parallel\<close>

lemma graphData_unchanged [simp]:
  "graphData (snd (requestAnimationFrame s)) = graphData s"
  "graphData (cancelAnimationFrame h s) = graphData s"
  "graphData (updateStartButtonState s) = graphData s"
  "graphData (showError shw k s) = graphData s"
  "graphData (sliderInput k v s) = graphData s"
  "graphData (drawSpring d s) = graphData s"
  "graphData (drawPendulum d s) = graphData s"
  "graphData (updateCurrentValues pos jv ja t s) = graphData s"
  "graphData (startSimulation s) = graphData s"
  "graphData (pauseSimulation s) = graphData s"
  "graphData (handleCanvasMouseUp s) = graphData s"
  by (simp_all add: requestAnimationFrame_def cancelAnimationFrame_def
      updateStartButtonState_def showError_def sliderInput_def drawSpring_def
      drawPendulum_def updateCurrentValues_def startSimulation_def pauseSimulation_def
      handleCanvasMouseUp_def Let_def split_def split: option.splits)

lemma graphData_manualInput [simp]: "graphData (manualInput k v s) = graphData s"
  by (simp add: manualInput_def validateAndUpdate_def Let_def split: option.splits)

lemma parallel_clearSeries [simp]: "parallel (graphData (clearSeries s))"
  by (simp add: clearSeries_def parallel_def)

lemma parallel_resetSimulation [simp]: "parallel (graphData (resetSimulation s))"
  by (simp add: resetSimulation_def Let_def)

lemma parallel_switchMode [simp]: "parallel (graphData (switchMode m s))"
  by (simp add: switchMode_def)

lemma parallel_handleCanvasMouseDown:
  "parallel (graphData s) \<Longrightarrow> parallel (graphData (handleCanvasMouseDown e s))"
  by (simp add: handleCanvasMouseDown_def Let_def)

lemma parallel_animate:
  "parallel (graphData s) \<Longrightarrow> parallel (graphData (animate timestamp s))"
  by (simp add: animate_def Let_def split_def parallel_addDataPoint)

lemma graphData_handleCanvasMouseMove:
  "handleCanvasMouseMove e s = Some s' \<Longrightarrow> graphData s' = graphData s"
  by (auto simp: handleCanvasMouseMove_def handleSpringDrag_def handlePendulumDrag_def
      Let_def split: if_splits option.splits)

lemma parallel_step:
  "parallel (graphData s) \<Longrightarrow> step e s = Some s' \<Longrightarrow> parallel (graphData s')"
proof (cases e)
  case (Frame timestamp)
  assume par: "parallel (graphData s)" and st: "step e s = Some s'"
  show ?thesis
  proof (cases "frameRequests s")
    case Nil
    then show ?thesis using par st Frame by simp
  next
    case (Cons h rest)
    have "parallel (graphData (s\<lparr> frameRequests := rest \<rparr>))" using par by simp
    then have "parallel (graphData (animate timestamp (s\<lparr> frameRequests := rest \<rparr>)))"
      by (rule parallel_animate)
    then show ?thesis using st Frame Cons by simp
  qed
qed (auto simp: parallel_handleCanvasMouseDown dest: graphData_handleCanvasMouseMove)

lemma parallel_run:
  "parallel (graphData s) \<Longrightarrow> run es s = Some s' \<Longrightarrow> parallel (graphData s')"
proof (induction es arbitrary: s)
  case Nil
  then show ?case by simp
next
  case (Cons e es)
  then obtain s1 where s1: "step e s = Some s1" and r: "run es s1 = Some s'"
    by (auto split: option.splits)
  from parallel_step [OF Cons.prems(1) s1] r show ?case by (rule Cons.IH)
qed

text \<open>
  Claim C10. The three series are kept parallel (same length, same times element by
  element): an append, an eviction batch, one eviction step, a reset, a mode switch and
  the clearing at the start of a drag all preserve it, and so does every sequence of
  events of the page.
\<close>

theorem C10_series_parallel:
  assumes "parallel (graphData s)"
  shows "parallel (graphData (addDataPoint t pos vel acc s)) \<and>
         parallel (addDataPoint_evict minTime (graphData s)) \<and>
         parallel ((graphData s)\<lparr> position := shift (position (graphData s)),
                                  velocity := shift (velocity (graphData s)),
                                  acceleration := shift (acceleration (graphData s)) \<rparr>) \<and>
         parallel (graphData (resetSimulation s)) \<and>
         parallel (graphData (switchMode m s)) \<and>
         parallel (graphData (handleCanvasMouseDown e s)) \<and>
         (\<forall>es s'. run es s = Some s' \<longrightarrow> parallel (graphData s'))"
  using assms
  by (simp add: parallel_addDataPoint parallel_evict parallel_shift
      parallel_handleCanvasMouseDown) (blast intro: parallel_run)

lemma parallel_initialState [simp]: "parallel (graphData (initialState w h l t))"
  by (simp add: parallel_def)

theorem C10_series_parallel_witness:
  "parallel (graphData (initialState 400 400 0 0)) \<and>
   parallel (graphData (addDataPoint 1 2 3 4 (initialState 400 400 0 0))) \<and>
   parallel (graphData (resetSimulation (startSimulation (initialState 400 400 0 0))))"
proof -
  have r: "run [Start, Reset] (initialState 400 400 0 0) =
             Some (resetSimulation (startSimulation (initialState 400 400 0 0)))"
    by simp
  from C10_series_parallel [OF parallel_initialState,
      of 1 2 3 4 400 400 0 0 0 Spring "\<lparr> clientX = 0, clientY = 0 \<rparr>"] r
  show ?thesis by (simp only: parallel_initialState simp_thms)
qed

section \<open>Key points\<close>

lemma calculateKeyPoints_body_cases:
  obtains tMax tMin tZero1 tZero2 yMax yMin
  where "keyPointCandidates ty s n = (tMax, tMin, tZero1, tZero2, yMax, yMin)"
  by (cases "keyPointCandidates ty s n") auto

lemma body_before:
  assumes "\<forall>p \<in> set (maximos acc) \<union> set (minimos acc) \<union> set (ceros acc).
             px p \<le> time (simulation s)"
  shows "\<forall>p \<in> set (maximos (calculateKeyPoints_body minTime maxTime ty s n acc)) \<union>
              set (minimos (calculateKeyPoints_body minTime maxTime ty s n acc)) \<union>
              set (ceros (calculateKeyPoints_body minTime maxTime ty s n acc)).
           px p \<le> time (simulation s)"
proof -
  obtain tMax tMin tZero1 tZero2 yMax yMin
    where c: "keyPointCandidates ty s n = (tMax, tMin, tZero1, tZero2, yMax, yMin)"
    by (rule calculateKeyPoints_body_cases)
  show ?thesis
    using assms by (auto simp: calculateKeyPoints_body_def c Let_def shown_def)
qed

lemma loop_before:
  assumes "\<forall>p \<in> set (maximos acc) \<union> set (minimos acc) \<union> set (ceros acc).
             px p \<le> time (simulation s)"
  shows "\<forall>p \<in> set (maximos (calculateKeyPoints_loop minTime maxTime ty s n endN acc)) \<union>
              set (minimos (calculateKeyPoints_loop minTime maxTime ty s n endN acc)) \<union>
              set (ceros (calculateKeyPoints_loop minTime maxTime ty s n endN acc)).
           px p \<le> time (simulation s)"
  using assms
proof (induction minTime maxTime ty s n endN acc rule: calculateKeyPoints_loop.induct)
  case (1 minTime maxTime ty s n endN acc)
  show ?case
  proof (cases "n \<le> endN")
    case True
    have "\<forall>p \<in> set (maximos (calculateKeyPoints_body minTime maxTime ty s n acc)) \<union>
              set (minimos (calculateKeyPoints_body minTime maxTime ty s n acc)) \<union>
              set (ceros (calculateKeyPoints_body minTime maxTime ty s n acc)).
           px p \<le> time (simulation s)"
      using "1.prems" by (rule body_before)
    moreover have "calculateKeyPoints_loop minTime maxTime ty s n endN acc =
        calculateKeyPoints_loop minTime maxTime ty s (n + 1) endN
          (calculateKeyPoints_body minTime maxTime ty s n acc)"
      by (subst calculateKeyPoints_loop.simps) (simp only: True if_True)
    ultimately show ?thesis
      using "1.IH" [OF True] by simp
  next
    case False
    have "calculateKeyPoints_loop minTime maxTime ty s n endN acc = acc"
      by (subst calculateKeyPoints_loop.simps) (simp only: False if_False)
    then show ?thesis
      using "1.prems" by simp
  qed
qed

text \<open>
  Claim C2. For every window, signal and current time, no key point that
  \<open>calculateKeyPoints\<close> returns (maximum, minimum or zero crossing) has a time after the
  current simulation time.
\<close>

theorem C2_no_future_key_points:
  "\<forall>p \<in> set (maximos (calculateKeyPoints minTime maxTime ty s)) \<union>
          set (minimos (calculateKeyPoints minTime maxTime ty s)) \<union>
          set (ceros (calculateKeyPoints minTime maxTime ty s)).
     px p \<le> time (simulation s)"
  unfolding calculateKeyPoints_def Let_def
  by (rule loop_before) simp

lemma body_empty_window:
  "maxTime < minTime \<Longrightarrow> calculateKeyPoints_body minTime maxTime ty s n acc = acc"
  by (cases "keyPointCandidates ty s n")
     (simp add: calculateKeyPoints_body_def Let_def shown_def)

lemma loop_empty_window:
  "maxTime < minTime \<Longrightarrow> calculateKeyPoints_loop minTime maxTime ty s n endN acc = acc"
proof (induction minTime maxTime ty s n endN acc rule: calculateKeyPoints_loop.induct)
  case (1 minTime maxTime ty s n endN acc)
  show ?case
  proof (cases "n \<le> endN")
    case True
    from "1.IH" [OF True "1.prems"] show ?thesis
      by (subst calculateKeyPoints_loop.simps)
         (simp only: True if_True body_empty_window [OF "1.prems"])
  next
    case False
    then show ?thesis
      by (subst calculateKeyPoints_loop.simps) (simp only: if_False)
  qed
qed

text \<open>
  Claim C9. When \<open>minTime > maxTime\<close>, \<open>calculateKeyPoints\<close> returns three empty lists,
  for every signal and every parameter set with a positive angular frequency.
\<close>

theorem C9_empty_window:
  "0 < calculateOmega s \<Longrightarrow> maxTime < minTime \<Longrightarrow>
   calculateKeyPoints minTime maxTime ty s = \<lparr> maximos = [], minimos = [], ceros = [] \<rparr>"
  by (simp add: calculateKeyPoints_def Let_def loop_empty_window)

theorem C9_empty_window_witness:
  "0 < calculateOmega (initialState 400 400 0 0) \<and> (0::real) < 1 \<and>
   calculateKeyPoints 1 0 Velocity (initialState 400 400 0 0) =
     \<lparr> maximos = [], minimos = [], ceros = [] \<rparr>"
proof -
  have w: "0 < calculateOmega (initialState 400 400 0 0)"
    by (simp add: omega_initialState)
  have lt: "(0::real) < 1" by simp
  from C9_empty_window [OF w lt, of Velocity] w lt show ?thesis by blast
qed


lemma body_maximos_subset:
  "set (maximos acc) \<subseteq> set (maximos (calculateKeyPoints_body minTime maxTime ty s n acc))"
  by (cases "keyPointCandidates ty s n")
     (auto simp: calculateKeyPoints_body_def Let_def)

lemma body_maximos_add:
  assumes "keyPointCandidates ty s n = (tMax, tMin, tZero1, tZero2, yMax, yMin)"
    and "shown minTime maxTime s tMax"
  shows "\<lparr> px = tMax, py = yMax \<rparr>
           \<in> set (maximos (calculateKeyPoints_body minTime maxTime ty s n acc))"
  using assms by (simp add: calculateKeyPoints_body_def Let_def)

lemma loop_unfold:
  "n \<le> endN \<Longrightarrow>
   calculateKeyPoints_loop minTime maxTime ty s n endN acc =
     calculateKeyPoints_loop minTime maxTime ty s (n + 1) endN
       (calculateKeyPoints_body minTime maxTime ty s n acc)"
  by (subst calculateKeyPoints_loop.simps) simp

lemma loop_done:
  "\<not> n \<le> endN \<Longrightarrow> calculateKeyPoints_loop minTime maxTime ty s n endN acc = acc"
  by (subst calculateKeyPoints_loop.simps) simp

lemma loop_maximos_subset:
  "set (maximos acc) \<subseteq> set (maximos (calculateKeyPoints_loop minTime maxTime ty s n endN acc))"
proof (induction minTime maxTime ty s n endN acc rule: calculateKeyPoints_loop.induct)
  case (1 minTime maxTime ty s n endN acc)
  show ?case
  proof (cases "n \<le> endN")
    case True
    from "1.IH" [OF True] body_maximos_subset [of acc minTime maxTime ty s n]
    have "set (maximos acc) \<subseteq> set (maximos
            (calculateKeyPoints_loop minTime maxTime ty s (n + 1) endN
              (calculateKeyPoints_body minTime maxTime ty s n acc)))"
      by blast
    then show ?thesis by (simp only: loop_unfold [OF True])
  next
    case False
    then show ?thesis by (simp add: loop_done)
  qed
qed

lemma loop_maximos_mem:
  "keyPointCandidates ty s k = (tMax, tMin, tZero1, tZero2, yMax, yMin) \<Longrightarrow>
   shown minTime maxTime s tMax \<Longrightarrow> n \<le> k \<Longrightarrow> k \<le> endN \<Longrightarrow>
   \<lparr> px = tMax, py = yMax \<rparr>
     \<in> set (maximos (calculateKeyPoints_loop minTime maxTime ty s n endN acc))"
proof (induction minTime maxTime ty s n endN acc rule: calculateKeyPoints_loop.induct)
  case (1 minTime maxTime ty s n endN acc)
  have le: "n \<le> endN" using "1.prems" by simp
  show ?case
  proof (cases "n = k")
    case True
    have "\<lparr> px = tMax, py = yMax \<rparr>
            \<in> set (maximos (calculateKeyPoints_body minTime maxTime ty s n acc))"
      using "1.prems"(1,2) True by (simp add: body_maximos_add)
    then show ?thesis
      using loop_maximos_subset by (simp only: loop_unfold [OF le]) blast
  next
    case False
    then have "n + 1 \<le> k" using "1.prems" by simp
    from "1.IH" [OF le "1.prems"(1,2) this "1.prems"(4)]
    show ?thesis by (simp only: loop_unfold [OF le])
  qed
qed


lemma atTwoSeconds_simps [simp]:
  "calculateOmega atTwoSeconds = sqrt 40"
  "getAmplitude atTwoSeconds = 0.15"
  "phase (params atTwoSeconds) = 0"
  "simulationMode atTwoSeconds = Spring"
  "time (simulation atTwoSeconds) = 2"
  by (simp_all add: atTwoSeconds_def calculateOmega_def getAmplitude_def initialState_def
      initialParams_def)

theorem C2_no_future_key_points_witness:
  "\<lparr> px = 0, py = 0.15 \<rparr> \<in> set (maximos (calculateKeyPoints 0 10 Position atTwoSeconds)) \<and>
   px \<lparr> px = 0, py = 0.15 \<rparr> \<le> time (simulation atTwoSeconds) \<and>
   \<lparr> px = 8 * pi / sqrt 40, py = 0.15 \<rparr>
     \<notin> set (maximos (calculateKeyPoints 0 10 Position atTwoSeconds))"
proof -
  let ?r = "calculateKeyPoints 0 10 Position atTwoSeconds"
  have c: "keyPointCandidates Position atTwoSeconds 0 =
             (0, pi / sqrt 40, pi / 2 / sqrt 40, 3 * pi / 2 / sqrt 40, 0.15, - 0.15)"
    by (simp add: keyPointCandidates_def Let_def)
  have sh: "shown 0 10 atTwoSeconds 0" by (simp add: shown_def)
  have "(0::real) \<le> 10 * sqrt 40 / (2 * pi)" by simp
  then have "(0::int) \<le> \<lceil>10 * sqrt 40 / (2 * pi)\<rceil>" by linarith
  then have mem: "\<lparr> px = 0, py = 0.15 \<rparr> \<in> set (maximos ?r)"
    unfolding calculateKeyPoints_def Let_def
    by (intro loop_maximos_mem [OF c sh]) simp_all
  have "sqrt 40 < 7" by (rule real_less_lsqrt) simp_all
  moreover have "2 \<le> pi" by (rule pi_ge_two)
  ultimately have "2 * sqrt 40 < 8 * pi" by linarith
  then have future: "2 < 8 * pi / sqrt 40" by (simp add: pos_less_divide_eq)
  from C2_no_future_key_points [of 0 10 Position atTwoSeconds] mem
  have "px \<lparr> px = 0, py = 0.15 \<rparr> \<le> time (simulation atTwoSeconds)"
    by blast
  moreover have "\<lparr> px = 8 * pi / sqrt 40, py = 0.15 \<rparr> \<notin> set (maximos ?r)"
  proof
    assume "\<lparr> px = 8 * pi / sqrt 40, py = 0.15 \<rparr> \<in> set (maximos ?r)"
    with C2_no_future_key_points [of 0 10 Position atTwoSeconds]
    have "px \<lparr> px = 8 * pi / sqrt 40, py = 0.15 \<rparr> \<le> time (simulation atTwoSeconds)"
      by blast
    then have "8 * pi / sqrt 40 \<le> 2" by simp
    with future show False by simp
  qed
  ultimately show ?thesis using mem by blast
qed

section \<open>Starting the simulation\<close>

lemma ex_field:
  "(\<exists>k. P k) \<longleftrightarrow>
     P Mass \<or> P SpringConstant \<or> P Amplitude \<or> P PendulumLength \<or> P PendulumAngle \<or>
     P Gravity \<or> P Phase"
proof
  assume "\<exists>k. P k"
  then obtain k where "P k" ..
  then show "P Mass \<or> P SpringConstant \<or> P Amplitude \<or> P PendulumLength \<or>
             P PendulumAngle \<or> P Gravity \<or> P Phase"
    by (cases k) simp_all
qed blast

lemma hasErrors_iff: "hasErrors s \<longleftrightarrow> (\<exists>k. \<not> validationState s k)"
  by (simp add: hasErrors_def Object_values_def ex_field)

text \<open>
  Claim C4. When at least one parameter field is marked invalid, starting is a no-op:
  the simulation object is unchanged (in particular \<open>isRunning\<close> and the clock), no
  frame is requested, and the only effect is the warning on the console.
\<close>

theorem C4_start_with_invalid_field:
  assumes "\<not> validationState s k"
  shows "simulation (startSimulation s) = simulation s \<and>
         isRunning (simulation (startSimulation s)) = isRunning (simulation s) \<and>
         time (simulation (startSimulation s)) = time (simulation s) \<and>
         frameRequests (startSimulation s) = frameRequests s \<and>
         nextHandle (startSimulation s) = nextHandle s \<and>
         startSimulation s =
           s\<lparr> console := console s @
               [''No se puede iniciar la simulacion: hay errores en los parametros''] \<rparr>"
proof -
  have "hasErrors s" using assms hasErrors_iff by blast
  then show ?thesis by (simp add: startSimulation_def)
qed

lemma massOutOfRange_simps:
  "\<not> validationState massOutOfRange Mass"
  "simulation massOutOfRange = initialSimulation"
  "frameRequests massOutOfRange = []"
  by (simp_all add: massOutOfRange_def manualInput_def validateAndUpdate_def showError_def
      updateStartButtonState_def initialState_def)

theorem C4_start_with_invalid_field_witness:
  "\<not> validationState massOutOfRange Mass \<and>
   \<not> isRunning (simulation (startSimulation massOutOfRange)) \<and>
   time (simulation (startSimulation massOutOfRange)) = 0 \<and>
   frameRequests (startSimulation massOutOfRange) = []"
  using C4_start_with_invalid_field [OF massOutOfRange_simps(1)]
  by (simp add: massOutOfRange_simps initialSimulation_def)

section \<open>Frame ticks\<close>

lemma simulation_unchanged [simp]:
  "simulation (drawSpring d s) = simulation s"
  "simulation (drawPendulum d s) = simulation s"
  "simulation (updateCurrentValues pos jv ja t s) = simulation s"
  "simulation (snd (requestAnimationFrame s)) = simulation s"
  by (simp_all add: drawSpring_def drawPendulum_def updateCurrentValues_def
      requestAnimationFrame_def Let_def)

lemma nextHandle_unchanged [simp]:
  "nextHandle (drawSpring d s) = nextHandle s"
  "nextHandle (drawPendulum d s) = nextHandle s"
  "nextHandle (updateCurrentValues pos jv ja t s) = nextHandle s"
  "nextHandle (addDataPoint t pos vel acc s) = nextHandle s"
  by (simp_all add: drawSpring_def drawPendulum_def updateCurrentValues_def
      addDataPoint_def Let_def)

lemma fst_requestAnimationFrame [simp]: "fst (requestAnimationFrame s) = nextHandle s"
  by (simp add: requestAnimationFrame_def)

lemma simulation_animate:
  assumes "isRunning (simulation s)"
  shows "simulation (animate timestamp s) =
     (simulation s)
       \<lparr> lastTimestamp := timestamp,
         time := time (simulation s) +
           min ((timestamp - (if lastTimestamp (simulation s) = 0 then timestamp
                              else lastTimestamp (simulation s))) / 1000) 0.1
           * timeScale (simulation s),
         animationId := Some (nextHandle s) \<rparr>"
  using assms
  by (simp add: animate_def Let_def split_def)

lemma simulation_startSimulation:
  "\<not> hasErrors s \<Longrightarrow> \<not> isRunning (simulation s) \<Longrightarrow>
   simulation (startSimulation s) =
     (simulation s)\<lparr> isRunning := True, lastTimestamp := 0, animationId := Some (nextHandle s) \<rparr>"
  by (simp add: startSimulation_def Let_def split_def)

text \<open>
  Claim C8, as amended. On a frame tick while running, the time advances by exactly
  \<open>min ((timestamp - lastTimestamp) / 1000) 0.1 * timeScale\<close>, the timestamps being in
  milliseconds and \<open>lastTimestamp\<close> being first set to the tick's own timestamp when it
  is 0; so by at most \<open>0.1 * timeScale\<close> for a non-negative \<open>timeScale\<close>. On the first
  tick after a start the time does not advance and \<open>lastTimestamp\<close> becomes the tick's
  timestamp.
\<close>

theorem C8_frame_advance:
  "(isRunning (simulation s) \<longrightarrow>
      time (simulation (animate timestamp s)) =
        time (simulation s) +
        min ((timestamp - (if lastTimestamp (simulation s) = 0 then timestamp
                           else lastTimestamp (simulation s))) / 1000) 0.1
        * timeScale (simulation s) \<and>
      lastTimestamp (simulation (animate timestamp s)) = timestamp \<and>
      (0 \<le> timeScale (simulation s) \<longrightarrow>
         time (simulation (animate timestamp s)) - time (simulation s)
           \<le> 0.1 * timeScale (simulation s))) \<and>
   (\<not> hasErrors s \<and> \<not> isRunning (simulation s) \<longrightarrow>
      isRunning (simulation (startSimulation s)) \<and>
      time (simulation (animate timestamp (startSimulation s))) = time (simulation s) \<and>
      lastTimestamp (simulation (animate timestamp (startSimulation s))) = timestamp)"
proof (intro conjI impI)
  assume run: "isRunning (simulation s)"
  show "time (simulation (animate timestamp s)) =
        time (simulation s) +
        min ((timestamp - (if lastTimestamp (simulation s) = 0 then timestamp
                           else lastTimestamp (simulation s))) / 1000) 0.1
        * timeScale (simulation s)"
    by (simp add: simulation_animate [OF run])
  show "lastTimestamp (simulation (animate timestamp s)) = timestamp"
    by (simp add: simulation_animate [OF run])
  assume "0 \<le> timeScale (simulation s)"
  then have "min ((timestamp - (if lastTimestamp (simulation s) = 0 then timestamp
                           else lastTimestamp (simulation s))) / 1000) 0.1
        * timeScale (simulation s) \<le> 0.1 * timeScale (simulation s)"
    by (intro mult_right_mono) simp_all
  then show "time (simulation (animate timestamp s)) - time (simulation s)
           \<le> 0.1 * timeScale (simulation s)"
    by (simp add: simulation_animate [OF run])
next
  assume a: "\<not> hasErrors s \<and> \<not> isRunning (simulation s)"
  then have st: "simulation (startSimulation s) =
     (simulation s)\<lparr> isRunning := True, lastTimestamp := 0, animationId := Some (nextHandle s) \<rparr>"
    by (simp add: simulation_startSimulation)
  then show run': "isRunning (simulation (startSimulation s))" by simp
  show "time (simulation (animate timestamp (startSimulation s))) = time (simulation s)"
    by (simp add: simulation_animate [OF run'] st)
  show "lastTimestamp (simulation (animate timestamp (startSimulation s))) = timestamp"
    by (simp add: simulation_animate [OF run'])
qed

lemma hasErrors_initialState [simp]: "\<not> hasErrors (initialState w h l t)"
  by (simp add: hasErrors_iff initialState_def)

lemma simulation_afterFirstFrame:
  "simulation afterFirstFrame =
     \<lparr> time = 0, isRunning = True, animationId = Some 2, lastTimestamp = 1000, timeScale = 1 \<rparr>"
proof -
  let ?s0 = "initialState 400 400 0 0"
  have sim0: "simulation ?s0 = initialSimulation" and nh0: "nextHandle ?s0 = 1"
    by (simp_all add: initialState_def)
  have st: "simulation (startSimulation ?s0) =
      \<lparr> time = 0, isRunning = True, animationId = Some 1, lastTimestamp = 0, timeScale = 1 \<rparr>"
    by (simp add: simulation_startSimulation sim0 nh0 initialSimulation_def)
  have nh: "nextHandle (startSimulation ?s0) = 2"
    by (simp add: startSimulation_def Let_def split_def requestAnimationFrame_def nh0 sim0
        initialSimulation_def)
  have "isRunning (simulation (startSimulation ?s0))" by (simp add: st)
  from simulation_animate [OF this, of 1000] show ?thesis
    by (simp add: afterFirstFrame_def st nh)
qed

theorem C8_frame_advance_witness:
  "isRunning (simulation afterFirstFrame) \<and>
   time (simulation (animate 1016 afterFirstFrame)) = 0.016 \<and>
   lastTimestamp (simulation (animate 1016 afterFirstFrame)) = 1016 \<and>
   time (simulation (animate 1000 (startSimulation (initialState 400 400 0 0)))) = 0"
proof -
  have run: "isRunning (simulation afterFirstFrame)"
    by (simp add: simulation_afterFirstFrame)
  have sim0: "simulation (initialState 400 400 0 0) = initialSimulation"
    by (simp add: initialState_def)
  from C8_frame_advance [of afterFirstFrame 1016] run
  have "time (simulation (animate 1016 afterFirstFrame)) = 0.016"
    and "lastTimestamp (simulation (animate 1016 afterFirstFrame)) = 1016"
    by (simp_all add: simulation_afterFirstFrame)
  moreover from C8_frame_advance [of "initialState 400 400 0 0" 1000]
  have "time (simulation (animate 1000 (startSimulation (initialState 400 400 0 0)))) = 0"
    by (simp add: sim0 initialSimulation_def)
  ultimately show ?thesis using run by blast
qed

text \<open>
  The claim as stated, without the division by 1000, fails on the second frame of a
  run, 16 ms after the first: the time advances by 0.016, not by \<open>min 16 0.1 = 0.1\<close>.
\<close>

theorem C8_frame_advance_counterexample:
  "isRunning (simulation afterFirstFrame) \<and>
   time (simulation (animate 1016 afterFirstFrame)) \<noteq>
     time (simulation afterFirstFrame) +
     min (1016 - lastTimestamp (simulation afterFirstFrame)) 0.1
     * timeScale (simulation afterFirstFrame)"
proof -
  have run: "isRunning (simulation afterFirstFrame)"
    by (simp add: simulation_afterFirstFrame)
  show ?thesis
    by (simp add: simulation_animate [OF run] simulation_afterFirstFrame)
qed

section \<open>Solving the time of a dragged position\<close>




text \<open>The clamped ratio is NaN when the amplitude is zero, and in \<open>[-1, 1]\<close> otherwise.\<close>

lemma ratio_zero_amplitude:
  "Math_max (- 1) (Math_min 1 (jsDivide 0 0)) = NaN"
  by (simp add: jsDivide_def)














section \<open>Further properties\<close>

text \<open>From the loaded page on, the three series are parallel in every state reached.\<close>

lemma parallel_reachable:
  "run es (loadedState w h l t) = Some s' \<Longrightarrow> parallel (graphData s')"
proof -
  have "parallel (graphData (loadedState w h l t))"
    by (simp add: loadedState_def)
  then show "run es (loadedState w h l t) = Some s' \<Longrightarrow> parallel (graphData s')"
    by (rule parallel_run)
qed

text \<open>The key points that \<open>updateChart\<close> hands to a chart are never in the future.\<close>

lemma updateChart_keyPoints_before:
  "\<forall>p \<in> set (maximos (updateChart_keyPoints ty s)) \<union>
          set (minimos (updateChart_keyPoints ty s)) \<union>
          set (ceros (updateChart_keyPoints ty s)).
     px p \<le> time (simulation s)"
  unfolding updateChart_keyPoints_def calculateKeyPoints_def Let_def
  by (rule loop_before) simp

text \<open>A mode switch stops the simulation, sets the time to 0 and empties the three series.\<close>

lemma switchMode_resets:
  "simulationMode (switchMode m s) = m \<and>
   \<not> isRunning (simulation (switchMode m s)) \<and>
   time (simulation (switchMode m s)) = 0 \<and>
   position (graphData (switchMode m s)) = [] \<and>
   velocity (graphData (switchMode m s)) = [] \<and>
   acceleration (graphData (switchMode m s)) = []"
  by (simp add: switchMode_def resetSimulation_def pauseSimulation_def clearSeries_def
      cancelAnimationFrame_def drawSpring_def drawPendulum_def updateCurrentValues_def
      Let_def split: option.splits)

end
